theory Spec2Isabelle
  imports Complex_Main "HOL-Library.Word" "HOL-Library.Multiset"
begin

section \<open>JavaScript strings\<close>

text \<open>
  A JavaScript string is a sequence of UTF-16 code units. Literals of the source are
  written through \<open>js_str\<close>, which maps each ASCII character to its code unit.
\<close>

type_synonym js_string = "16 word list"

definition js_str :: "string \<Rightarrow> js_string" where
  "js_str s = map (\<lambda>c. of_nat (of_char c)) s"

text \<open>
  \<open>String.prototype.trim\<close> strips WhiteSpace and LineTerminator code units from both
  ends: TAB, LF, VT, FF, CR, SPACE, NBSP, U+1680, U+2000..U+200A, U+2028, U+2029, U+202F,
  U+205F, U+3000 and U+FEFF.
\<close>

definition is_js_whitespace :: "16 word \<Rightarrow> bool" where
  "is_js_whitespace c =
     (c = 0x0009 \<or> c = 0x000A \<or> c = 0x000B \<or> c = 0x000C \<or> c = 0x000D \<or> c = 0x0020 \<or>
      c = 0x00A0 \<or> c = 0x1680 \<or> (0x2000 \<le> c \<and> c \<le> 0x200A) \<or> c = 0x2028 \<or>
      c = 0x2029 \<or> c = 0x202F \<or> c = 0x205F \<or> c = 0x3000 \<or> c = 0xFEFF)"

definition trim :: "js_string \<Rightarrow> js_string" where
  "trim s = rev (dropWhile is_js_whitespace (rev (dropWhile is_js_whitespace s)))"

text \<open>The guard \<open>!query.trim()\<close>: the empty string is the only falsy string.\<close>

definition blank :: "js_string \<Rightarrow> bool" where
  "blank q = (trim q = [])"

text \<open>Decimal rendering of a non-negative integer, as a template literal inserts it.\<close>

function decimal :: "nat \<Rightarrow> js_string" where
  "decimal n =
     (if n < 10 then [of_nat (48 + n)]
      else decimal (n div 10) @ [of_nat (48 + n mod 10)])"
  by pat_completeness auto
termination
  by (relation "measure (\<lambda>n. n)") auto

section \<open>The backend's answer as the page declares it\<close>

text \<open>
  \<open>interface ContextMatch\<close> and \<open>interface QueryApiResponse\<close> of app/page.tsx. A field
  marked \<open>?\<close> in the source is an option. \<open>sources_used\<close> is declared mandatory, but
  the handler reads it as \<open>data.sources_used || []\<close>; \<open>None\<close> stands for a missing (or
  null) field, an array being truthy whatever its length. The properties \<open>query\<close> and
  \<open>timestamp\<close> of the source are \<open>resp_query\<close>, \<open>resp_timestamp\<close> and
  \<open>match_timestamp\<close> here, to keep them apart from the component's \<open>query\<close>. The
  handler stores the parsed object as it comes and reads only \<open>sources_used\<close> of it; a
  property the interface does not declare is read nowhere in the page and is left out.
\<close>

record ContextMatch =
  entry_id :: js_string
  score :: real
  source :: js_string
  entry_type :: js_string
  title :: "js_string option"
  content :: js_string
  author :: "js_string option"
  match_timestamp :: js_string
  url :: "js_string option"

record QueryApiResponse =
  query_id :: js_string
  resp_query :: js_string
  answer :: js_string
  sources_used :: "js_string list option"
  context_matches :: "ContextMatch list"
  confidence_score :: real
  execution_time :: real
  resp_timestamp :: js_string

section \<open>The network as the handler sees it\<close>

text \<open>
  A thrown value, read only through \<open>err.message\<close>; the empty message stands for every
  falsy one.
\<close>

datatype js_error = JsError (message: js_string)

text \<open>
  A property of the untyped error body. The handler only tests it with \<open>||\<close> and hands
  the chosen value to \<open>new Error\<close>, which stores its string rendering: the model keeps
  the truthiness and that rendering.
\<close>

datatype js_field = Falsy | Truthy js_string

text \<open>
  The two properties read from the error body, \<open>errorData.detail\<close> and
  \<open>errorData.message\<close> (named \<open>error_message\<close> here, \<open>message\<close> being the property of a
  thrown error).
\<close>

record error_data =
  detail :: js_field
  error_message :: js_field

text \<open>
  What \<open>await response.json()\<close> gives: a rejection, the value \<open>null\<close> (reading a
  property of it throws a TypeError), or a value whose properties can be read.
\<close>

datatype 'a json_result = JsonThrows js_error | JsonNull | JsonObject 'a

text \<open>
  A response is ok (status 200..299) or not. The not-ok one carries its status, its body
  as \<open>json()\<close> reads it and what \<open>text()\<close> gives when called after \<open>json()\<close> failed.
\<close>

datatype response =
  OkResponse "QueryApiResponse json_result"
| ErrResponse nat "error_data json_result" "js_error + js_string"

datatype fetch_result = FetchThrows js_error | FetchResponds response

fun ok :: "response \<Rightarrow> bool" where
  "ok (OkResponse _) = True"
| "ok (ErrResponse _ _ _) = False"

text \<open>The JSON body of the POST request and the request itself.\<close>

record query_body =
  body_query :: js_string
  project_id :: "js_string option"
  context_limit :: int
  include_sources :: "js_string list"

record request =
  req_url :: js_string
  req_method :: js_string
  req_headers :: "(js_string \<times> js_string) list"
  req_body :: query_body

record environment =
  NEXT_PUBLIC_BACKEND_URL :: "js_string option"
  fetch :: "request \<Rightarrow> fetch_result"
  null_property_error :: js_error

text \<open>\<open>process.env.NEXT_PUBLIC_BACKEND_URL || "http://localhost:8000"\<close>\<close>

definition backendUrl :: "environment \<Rightarrow> js_string" where
  "backendUrl env =
     (case NEXT_PUBLIC_BACKEND_URL env of
        None \<Rightarrow> js_str ''http://localhost:8000''
      | Some u \<Rightarrow> if u = [] then js_str ''http://localhost:8000'' else u)"

section \<open>The dashboard component of app/page.tsx\<close>

record dashboard =
  query :: js_string
  isQuerying :: bool
  activeTools :: "js_string list"
  apiResponse :: "QueryApiResponse option"
  error :: "js_string option"

datatype timer_callback = ClearIsQuerying

text \<open>
  One call of \<open>handleQuery\<close>: the state once the promise has settled, the requests sent,
  the timers left pending (each with its delay in milliseconds) and the error the promise
  is rejected with, if any.
\<close>

record handled =
  after :: dashboard
  requests :: "request list"
  timers :: "(nat \<times> timer_callback) list"
  rejected :: "js_error option"

definition potentialTools :: "js_string list" where
  "potentialTools = [js_str ''github'', js_str ''slack'', js_str ''jira'', js_str ''confluence'']"

definition query_request :: "environment \<Rightarrow> dashboard \<Rightarrow> request" where
  "query_request env s =
     \<lparr>req_url = backendUrl env @ js_str ''/api/v1/query'',
      req_method = js_str ''POST'',
      req_headers = [(js_str ''Content-Type'', js_str ''application/json'')],
      req_body = \<lparr>body_query = query s, project_id = None, context_limit = 10,
                  include_sources = potentialTools\<rparr>\<rparr>"

text \<open>The synchronous prefix: the four setters called before the request is sent.\<close>

definition handleQuery_begin :: "dashboard \<Rightarrow> dashboard" where
  "handleQuery_begin s =
     s\<lparr>isQuerying := True, apiResponse := None, error := None, activeTools := potentialTools\<rparr>"

text \<open>\<open>a || b\<close> on a property and a string: the rendering of the first truthy one.\<close>

fun or_else :: "js_field \<Rightarrow> js_string \<Rightarrow> js_string" where
  "or_else (Truthy v) d = v"
| "or_else Falsy d = d"

definition str_or_else :: "js_string \<Rightarrow> js_string \<Rightarrow> js_string" where
  "str_or_else t d = (if t = [] then d else t)"

text \<open>
  The \<open>if (!response.ok)\<close> block: it always throws, and the model returns what it throws.
\<close>

definition not_ok_error ::
  "nat \<Rightarrow> error_data json_result \<Rightarrow> js_error + js_string \<Rightarrow> js_error" where
  "not_ok_error status body txt =
     (let errorDetail = js_str ''HTTP error! status: '' @ decimal status in
      case body of
        JsonObject errorData \<Rightarrow>
          JsError (or_else (detail errorData) (or_else (error_message errorData) errorDetail))
      | _ \<Rightarrow>
          (case txt of
             Inl e \<Rightarrow> e
           | Inr textError \<Rightarrow> JsError (str_or_else textError errorDetail)))"

text \<open>The \<open>catch\<close> block.\<close>

definition on_catch :: "js_error \<Rightarrow> dashboard \<Rightarrow> dashboard" where
  "on_catch err s =
     s\<lparr>error := Some (str_or_else (message err) (js_str ''Failed to fetch response from DevMind.'')),
       activeTools := []\<rparr>"

text \<open>The \<open>try\<close> block after the request has been answered.\<close>

fun on_fetched :: "environment \<Rightarrow> fetch_result \<Rightarrow> dashboard \<Rightarrow> dashboard" where
  "on_fetched env (FetchThrows e) s = on_catch e s"
| "on_fetched env (FetchResponds (ErrResponse status body txt)) s =
     on_catch (not_ok_error status body txt) s"
| "on_fetched env (FetchResponds (OkResponse (JsonThrows e))) s = on_catch e s"
| "on_fetched env (FetchResponds (OkResponse JsonNull)) s =
     on_catch (null_property_error env) (s\<lparr>apiResponse := None\<rparr>)"
| "on_fetched env (FetchResponds (OkResponse (JsonObject data))) s =
     s\<lparr>apiResponse := Some data,
       activeTools := (case sources_used data of Some used \<Rightarrow> used | None \<Rightarrow> [])\<rparr>"

definition handleQuery :: "environment \<Rightarrow> dashboard \<Rightarrow> handled" where
  "handleQuery env s =
     (if blank (query s) then \<lparr>after = s, requests = [], timers = [], rejected = None\<rparr>
      else
        let rq = query_request env s in
        \<lparr>after = on_fetched env (fetch env rq) (handleQuery_begin s),
         requests = [rq],
         timers = [(500, ClearIsQuerying)],
         rejected = None\<rparr>)"

fun run_timer :: "timer_callback \<Rightarrow> dashboard \<Rightarrow> dashboard" where
  "run_timer ClearIsQuerying s = s\<lparr>isQuerying := False\<rparr>"

text \<open>
  What the page renders from the state: the submit button, disabled by
  \<open>!query.trim() || isQuerying\<close>, and the tool indicators, lit by
  \<open>activeTools.includes(toolName.toLowerCase())\<close> for the four lower-case names of the
  header.
\<close>

definition submit_disabled :: "dashboard \<Rightarrow> bool" where
  "submit_disabled s = (blank (query s) \<or> isQuerying s)"

definition isActive :: "dashboard \<Rightarrow> js_string \<Rightarrow> bool" where
  "isActive s tool = (tool \<in> set (activeTools s))"

text \<open>The two ways the request fails: \<open>fetch\<close> throws, or the response is not ok.\<close>

fun request_failed :: "fetch_result \<Rightarrow> bool" where
  "request_failed (FetchThrows _) = True"
| "request_failed (FetchResponds r) = (\<not> ok r)"

section \<open>The page that simulates the tool query\<close>

text \<open>
  The other \<open>DevMindDashboard\<close> of the sources keeps only three pieces of state and
  sends nothing: its \<open>handleQuery\<close> lights the indicators and arms a 2000 ms timer,
  whose callback arms a 1000 ms one.
\<close>

record sim_dashboard =
  sim_query :: js_string
  sim_isQuerying :: bool
  sim_activeTools :: "js_string list"

datatype sim_callback = AfterTwoSeconds | AfterOneMoreSecond

record sim_handled =
  sim_after :: sim_dashboard
  sim_requests :: "request list"
  sim_timers :: "(nat \<times> sim_callback) list"
  sim_rejected :: "js_error option"

definition handleQuery_sim :: "sim_dashboard \<Rightarrow> sim_handled" where
  "handleQuery_sim s =
     (if blank (sim_query s) then \<lparr>sim_after = s, sim_requests = [], sim_timers = [], sim_rejected = None\<rparr>
      else
        \<lparr>sim_after = s\<lparr>sim_isQuerying := True,
                       sim_activeTools := [js_str ''github'', js_str ''slack'', js_str ''jira'']\<rparr>,
         sim_requests = [],
         sim_timers = [(2000, AfterTwoSeconds)],
         sim_rejected = None\<rparr>)"

fun run_sim_timer :: "sim_callback \<Rightarrow> sim_dashboard \<Rightarrow> sim_dashboard \<times> (nat \<times> sim_callback) list" where
  "run_sim_timer AfterTwoSeconds s =
     (s\<lparr>sim_activeTools := [js_str ''github'']\<rparr>, [(1000, AfterOneMoreSecond)])"
| "run_sim_timer AfterOneMoreSecond s =
     (s\<lparr>sim_activeTools := [], sim_isQuerying := False\<rparr>, [])"

definition sim_submit_disabled :: "sim_dashboard \<Rightarrow> bool" where
  "sim_submit_disabled s = (blank (sim_query s) \<or> sim_isQuerying s)"

section \<open>Sample inputs\<close>

definition fresh :: "js_string \<Rightarrow> dashboard" where
  "fresh q = \<lparr>query = q, isQuerying = False, activeTools = [], apiResponse = None, error = None\<rparr>"

definition sim_fresh :: "js_string \<Rightarrow> sim_dashboard" where
  "sim_fresh q = \<lparr>sim_query = q, sim_isQuerying = False, sim_activeTools = []\<rparr>"

definition answering :: "fetch_result \<Rightarrow> environment" where
  "answering r =
     \<lparr>NEXT_PUBLIC_BACKEND_URL = None, fetch = (\<lambda>_. r),
      null_property_error = JsError (js_str ''Cannot read properties of null'')\<rparr>"

definition sample_response :: QueryApiResponse where
  "sample_response =
     \<lparr>query_id = js_str ''q-1'', resp_query = js_str ''redis'', answer = js_str ''Redis was chosen.'',
      sources_used = Some [js_str ''github''], context_matches = [],
      confidence_score = 1 / 2, execution_time = 1, resp_timestamp = js_str ''2025-06-01T00:00:00Z''\<rparr>"

definition source_down :: response where
  "source_down =
     ErrResponse 503
       (JsonObject \<lparr>detail = Truthy (js_str ''slack timed out''), error_message = Falsy\<rparr>)
       (Inl (JsError (js_str ''body stream already read'')))"

section \<open>The retrieval core behind the endpoint\<close>

text \<open>
  The page only calls \<open>/api/v1/query\<close>; the scorer, the correlator and the selector that
  answer it belong to the backend, whose code is not among the sources. They are
  modelled here from sections 3 and 4 of the specification. Times are in seconds.
\<close>

text \<open>Modelled from the spec: the source enum of a context entry (backend, section 3).\<close>

datatype source_kind = CodeRepo | Chat | IssueTracker | Document

text \<open>Modelled from the spec: ContextEntry (backend data model, section 3).\<close>

record ContextEntry =
  ce_id :: string
  ce_source :: source_kind
  ce_type :: string
  ce_title :: "string option"
  ce_content :: string
  ce_author :: "string option"
  ce_timestamp :: int
  ce_url :: "string option"
  ce_tags :: "string list"

text \<open>Modelled from the spec: ScoredEntry, a ContextEntry plus its score (section 3).\<close>

record ScoredEntry =
  entry :: ContextEntry
  relevance_score :: real
  matched_terms :: "string list"

text \<open>
  Modelled from the spec: the configuration threaded through the Scorer (section 4.2,
  section 9): the three weights, the half-life of the recency decay, the per-source
  priority the caller supplies, and the minimum score.
\<close>

record scorer_config =
  w_lexical :: real
  w_recency :: real
  w_source :: real
  half_life :: real
  source_priority :: "source_kind \<Rightarrow> real"
  min_score :: real

text \<open>
  Modelled from the spec: the recognised defaults of the Scorer (section 4.2): weights
  (0.5, 0.2, 0.3), half-life 30 days, cutoff 0.05; the source priorities have no default.
\<close>

definition default_scorer_config :: "(source_kind \<Rightarrow> real) \<Rightarrow> scorer_config" where
  "default_scorer_config priority =
     \<lparr>w_lexical = 5 / 10, w_recency = 2 / 10, w_source = 3 / 10,
      half_life = 30 * 86400, source_priority = priority, min_score = 5 / 100\<rparr>"

text \<open>Modelled from the spec: \<open>clamp(x, lo, hi)\<close> of the final score (section 4.2).\<close>

definition clamp :: "real \<Rightarrow> real \<Rightarrow> real \<Rightarrow> real" where
  "clamp x lo hi = (if x < lo then lo else if hi < x then hi else x)"

text \<open>Modelled from the spec: whether a text contains a literal term (sections 4.2, 4.3).\<close>

fun starts_with :: "string \<Rightarrow> string \<Rightarrow> bool" where
  "starts_with _ [] = True"
| "starts_with [] (_ # _) = False"
| "starts_with (c # cs) (t # ts) = (c = t \<and> starts_with cs ts)"

text \<open>Modelled from the spec: substring search used by the Scorer and the Correlator.\<close>

fun contains :: "string \<Rightarrow> string \<Rightarrow> bool" where
  "contains [] t = (t = [])"
| "contains (c # cs) t = (starts_with (c # cs) t \<or> contains cs t)"

text \<open>
  Modelled from the spec: a query term is found in an entry when it is one of its tags
  or occurs in its content (Scorer, section 4.2).
\<close>

definition term_found :: "ContextEntry \<Rightarrow> string \<Rightarrow> bool" where
  "term_found e t = (t \<in> set (ce_tags e) \<or> contains (ce_content e) t)"

text \<open>
  Modelled from the spec: the lexical signal of the Scorer, the fraction of the query
  terms found in the entry; no query terms give 0 (section 4.2).
\<close>

definition lexical_overlap :: "ContextEntry \<Rightarrow> string list \<Rightarrow> real" where
  "lexical_overlap e terms =
     (if remdups terms = [] then 0
      else real (length (filter (term_found e) (remdups terms))) / real (length (remdups terms)))"

text \<open>
  Modelled from the spec: the recency signal of the Scorer, an exponential decay of the
  entry's age that halves every half-life and never reaches zero (section 4.2).
\<close>

definition recency :: "scorer_config \<Rightarrow> int \<Rightarrow> ContextEntry \<Rightarrow> real" where
  "recency cfg now e =
     (if now \<le> ce_timestamp e then 1
      else (1 / 2) powr (real_of_int (now - ce_timestamp e) / half_life cfg))"

text \<open>
  Modelled from the spec: the source signal of the Scorer, the caller's priority for
  the entry's source, normalised to [0,1] (section 4.2).
\<close>

definition source_signal :: "scorer_config \<Rightarrow> ContextEntry \<Rightarrow> real" where
  "source_signal cfg e = clamp (source_priority cfg (ce_source e)) 0 1"

text \<open>
  Modelled from the spec: \<open>score(entry, query_terms) -> ScoredEntry\<close> of the Relevance
  Scorer (section 4.2), at the time \<open>now\<close>.
\<close>

definition score_entry :: "scorer_config \<Rightarrow> int \<Rightarrow> ContextEntry \<Rightarrow> string list \<Rightarrow> ScoredEntry" where
  "score_entry cfg now e terms =
     \<lparr>entry = e,
      relevance_score =
        clamp (w_lexical cfg * lexical_overlap e terms + w_recency cfg * recency cfg now e +
               w_source cfg * source_signal cfg e) 0 1,
      matched_terms = filter (term_found e) (remdups terms)\<rparr>"

text \<open>Modelled from the spec: Cluster (section 3), its members resolved to entries.\<close>

record Cluster =
  members :: "ScoredEntry list"
  representative :: ScoredEntry
  merged_relevance :: real

text \<open>Modelled from the spec: the ids of a cluster's members (section 3).\<close>

definition member_ids :: "Cluster \<Rightarrow> string list" where
  "member_ids c = map (\<lambda>m. ce_id (entry m)) (members c)"

text \<open>Modelled from the spec: the caller errors of section 7.\<close>

datatype query_error = InvalidQuery

text \<open>
  Modelled from the spec: the order of the Ranker (section 4.4): representative
  relevance descending, then cluster size descending, then representative timestamp
  descending. \<open>ranks_before a b\<close>: \<open>a\<close> may stand before \<open>b\<close>.
\<close>

definition ranks_before :: "Cluster \<Rightarrow> Cluster \<Rightarrow> bool" where
  "ranks_before a b =
     (relevance_score (representative a) > relevance_score (representative b) \<or>
      (relevance_score (representative a) = relevance_score (representative b) \<and>
       (length (members a) > length (members b) \<or>
        (length (members a) = length (members b) \<and>
         ce_timestamp (entry (representative a)) \<ge> ce_timestamp (entry (representative b))))))"

text \<open>Modelled from the spec: one step of the Ranker's sort, an ordered insertion.\<close>

fun insert_ranked :: "Cluster \<Rightarrow> Cluster list \<Rightarrow> Cluster list" where
  "insert_ranked c [] = [c]"
| "insert_ranked c (d # ds) =
     (if ranks_before c d then c # d # ds else d # insert_ranked c ds)"

text \<open>Modelled from the spec: the Ranker's ordering of all clusters (section 4.4).\<close>

definition rank_clusters :: "Cluster list \<Rightarrow> Cluster list" where
  "rank_clusters cs = foldr insert_ranked cs []"

text \<open>Modelled from the spec: the default result budget of the Ranker (section 4.4).\<close>

definition default_limit :: int where
  "default_limit = 10"

text \<open>
  Modelled from the spec: \<open>select(clusters, limit) -> ranked_entries\<close> of the
  Ranker/Selector (section 4.4); a limit that is not positive is a caller error.
\<close>

definition select :: "Cluster list \<Rightarrow> int \<Rightarrow> query_error + ScoredEntry list" where
  "select clusters limit =
     (if limit \<le> 0 then Inl InvalidQuery
      else Inr (map representative (take (nat limit) (rank_clusters clusters))))"

text \<open>
  Modelled from the spec: the thresholds of the Correlator (section 4.3): duplicate
  similarity 0.85 within 5 minutes, textual overlap from 0.3, temporal window 1 hour,
  cluster threshold 0.5, at most 200 candidates for relation discovery.
\<close>

record correlator_config =
  duplicate_similarity :: real
  duplicate_window :: int
  overlap_threshold :: real
  temporal_window :: int
  cluster_threshold :: real
  max_candidates :: nat

text \<open>Modelled from the spec: the defaults of the Correlator (section 4.3).\<close>

definition default_correlator_config :: correlator_config where
  "default_correlator_config =
     \<lparr>duplicate_similarity = 85 / 100, duplicate_window = 300, overlap_threshold = 3 / 10,
      temporal_window = 3600, cluster_threshold = 5 / 10, max_candidates = 200\<rparr>"

text \<open>
  Modelled from the spec: Jaccard similarity of two tag sets (section 4.3); two empty
  sets have similarity 0.
\<close>

definition jaccard :: "string list \<Rightarrow> string list \<Rightarrow> real" where
  "jaccard a b =
     (if remdups (a @ b) = [] then 0
      else real (length (filter (\<lambda>t. t \<in> set b) (remdups a))) / real (length (remdups (a @ b))))"

text \<open>Modelled from the spec: the distance in time of two entries (section 4.3).\<close>

definition time_gap :: "ScoredEntry \<Rightarrow> ScoredEntry \<Rightarrow> int" where
  "time_gap a b = \<bar>ce_timestamp (entry a) - ce_timestamp (entry b)\<bar>"

text \<open>
  Modelled from the spec: the duplicate test of the Correlator (section 4.3): same
  source and type, tag similarity at least the threshold, timestamps within the window.
\<close>

definition duplicates :: "correlator_config \<Rightarrow> ScoredEntry \<Rightarrow> ScoredEntry \<Rightarrow> bool" where
  "duplicates cfg a b =
     (ce_source (entry a) = ce_source (entry b) \<and> ce_type (entry a) = ce_type (entry b) \<and>
      jaccard (ce_tags (entry a)) (ce_tags (entry b)) \<ge> duplicate_similarity cfg \<and>
      time_gap a b \<le> duplicate_window cfg)"

text \<open>
  Modelled from the spec: which of two duplicates survives (section 4.3): the higher
  relevance, ties broken by the more recent timestamp.
\<close>

definition survives_over :: "ScoredEntry \<Rightarrow> ScoredEntry \<Rightarrow> bool" where
  "survives_over a b =
     (relevance_score a > relevance_score b \<or>
      (relevance_score a = relevance_score b \<and>
       ce_timestamp (entry a) > ce_timestamp (entry b)))"

text \<open>
  Modelled from the spec: ordered insertion for the deduplication (section 4.3): an
  entry stands before every entry it survives over or ties with.
\<close>

fun insert_survivor :: "ScoredEntry \<Rightarrow> ScoredEntry list \<Rightarrow> ScoredEntry list" where
  "insert_survivor e [] = [e]"
| "insert_survivor e (k # ks) =
     (if survives_over k e then k # insert_survivor e ks else e # k # ks)"

text \<open>
  Modelled from the spec: the entries in the order in which they survive (section
  4.3): higher relevance first, ties by the more recent timestamp.
\<close>

definition by_survival :: "ScoredEntry list \<Rightarrow> ScoredEntry list" where
  "by_survival es = foldr insert_survivor es []"

text \<open>
  Modelled from the spec: merging duplicates (section 4.3): the first entry is kept,
  every later entry that duplicates it is dropped, and so on for the rest.
\<close>

fun drop_duplicates :: "correlator_config \<Rightarrow> ScoredEntry list \<Rightarrow> ScoredEntry list" where
  "drop_duplicates cfg [] = []"
| "drop_duplicates cfg (e # es) =
     e # drop_duplicates cfg (filter (\<lambda>x. \<not> duplicates cfg e x) es)"

text \<open>
  Modelled from the spec: the deduplication of the Correlator (section 4.3): of the
  entries that duplicate one another the one that survives over the others is kept.
\<close>

definition deduplicate :: "correlator_config \<Rightarrow> ScoredEntry list \<Rightarrow> ScoredEntry list" where
  "deduplicate cfg es = drop_duplicates cfg (by_survival es)"

text \<open>Modelled from the spec: the kinds of a Correlation (section 3).\<close>

datatype correlation_kind = Temporal | TextualOverlap | ExplicitReference

text \<open>Modelled from the spec: Correlation (section 3), between two entry ids.\<close>

record Correlation =
  from_id :: string
  to_id :: string
  kind :: correlation_kind
  strength :: real

text \<open>
  Modelled from the spec: an explicit reference (section 4.3): the content of one entry
  contains the id or the title of the other.
\<close>

definition refers_to :: "ScoredEntry \<Rightarrow> ScoredEntry \<Rightarrow> bool" where
  "refers_to a b =
     ((ce_id (entry b) \<noteq> [] \<and> contains (ce_content (entry a)) (ce_id (entry b))) \<or>
      (case ce_title (entry b) of
         None \<Rightarrow> False
       | Some t \<Rightarrow> t \<noteq> [] \<and> contains (ce_content (entry a)) t))"

text \<open>
  Modelled from the spec: relation discovery for one pair of entries (section 4.3):
  explicit reference with strength 1, textual overlap with the similarity as strength,
  temporal proximity (within the window and sharing a tag) with a strength that decays
  linearly with the gap.
\<close>

definition relate :: "correlator_config \<Rightarrow> ScoredEntry \<Rightarrow> ScoredEntry \<Rightarrow> Correlation list" where
  "relate cfg a b =
     (let i = ce_id (entry a); j = ce_id (entry b);
          sim = jaccard (ce_tags (entry a)) (ce_tags (entry b)) in
      (if refers_to a b \<or> refers_to b a
       then [\<lparr>from_id = i, to_id = j, kind = ExplicitReference, strength = 1\<rparr>] else []) @
      (if sim \<ge> overlap_threshold cfg
       then [\<lparr>from_id = i, to_id = j, kind = TextualOverlap, strength = sim\<rparr>] else []) @
      (if time_gap a b \<le> temporal_window cfg \<and> 0 < temporal_window cfg \<and>
          (\<exists>t \<in> set (ce_tags (entry a)). t \<in> set (ce_tags (entry b)))
       then [\<lparr>from_id = i, to_id = j, kind = Temporal,
               strength = 1 - real_of_int (time_gap a b) / real_of_int (temporal_window cfg)\<rparr>]
       else []))"

text \<open>Modelled from the spec: every pair of distinct positions of a list, once.\<close>

fun pairs :: "'a list \<Rightarrow> ('a \<times> 'a) list" where
  "pairs [] = []"
| "pairs (x # xs) = map (Pair x) xs @ pairs xs"

text \<open>
  Modelled from the spec: the bounded candidate set of relation discovery (section
  4.3): the best entries by score, at most \<open>max_candidates\<close> of them.
\<close>

definition candidates :: "correlator_config \<Rightarrow> ScoredEntry list \<Rightarrow> ScoredEntry list" where
  "candidates cfg es = take (max_candidates cfg) (sort_key (\<lambda>e. - relevance_score e) es)"

text \<open>Modelled from the spec: relation discovery over the candidates (section 4.3).\<close>

definition discover :: "correlator_config \<Rightarrow> ScoredEntry list \<Rightarrow> Correlation list" where
  "discover cfg es = concat (map (\<lambda>(a, b). relate cfg a b) (pairs (candidates cfg es)))"

text \<open>
  Modelled from the spec: two entries are joined when some correlation between them
  reaches the cluster threshold (section 4.3).
\<close>

definition joined :: "correlator_config \<Rightarrow> Correlation list \<Rightarrow> ScoredEntry \<Rightarrow> ScoredEntry \<Rightarrow> bool" where
  "joined cfg cors a b =
     (\<exists>c \<in> set cors. strength c \<ge> cluster_threshold cfg \<and>
        ((from_id c = ce_id (entry a) \<and> to_id c = ce_id (entry b)) \<or>
         (from_id c = ce_id (entry b) \<and> to_id c = ce_id (entry a))))"

text \<open>
  Modelled from the spec: whether an entry is joined to some member of a group
  (clustering, section 4.3).
\<close>

definition touches :: "(ScoredEntry \<Rightarrow> ScoredEntry \<Rightarrow> bool) \<Rightarrow> ScoredEntry \<Rightarrow> ScoredEntry list \<Rightarrow> bool" where
  "touches link e g = (\<exists>m \<in> set g. link e m)"

text \<open>
  Modelled from the spec: one union step of the clustering (section 4.3, the
  equivalent of union-find): the new entry and every group it touches become one group.
\<close>

definition add_to_groups ::
  "(ScoredEntry \<Rightarrow> ScoredEntry \<Rightarrow> bool) \<Rightarrow> ScoredEntry \<Rightarrow> ScoredEntry list list \<Rightarrow> ScoredEntry list list" where
  "add_to_groups link e groups =
     (e # concat (filter (touches link e) groups)) # filter (\<lambda>g. \<not> touches link e g) groups"

text \<open>
  Modelled from the spec: the connected components of the deduplicated entries
  (section 4.3); an entry without a qualifying edge is a group of its own.
\<close>

definition components :: "(ScoredEntry \<Rightarrow> ScoredEntry \<Rightarrow> bool) \<Rightarrow> ScoredEntry list \<Rightarrow> ScoredEntry list list" where
  "components link es = foldr (add_to_groups link) es []"

text \<open>Modelled from the spec: the highest-relevance entry of a non-empty group.\<close>

fun best_of :: "ScoredEntry \<Rightarrow> ScoredEntry list \<Rightarrow> ScoredEntry" where
  "best_of b [] = b"
| "best_of b (m # ms) = best_of (if relevance_score m > relevance_score b then m else b) ms"

text \<open>
  Modelled from the spec: the Cluster of a group (section 4.3): its representative is
  the highest-relevance member, its merged relevance the maximum. A group is never
  empty; the empty list gives no cluster.
\<close>

fun make_cluster :: "ScoredEntry list \<Rightarrow> Cluster list" where
  "make_cluster [] = []"
| "make_cluster (m # ms) =
     [\<lparr>members = m # ms, representative = best_of m ms,
       merged_relevance = relevance_score (best_of m ms)\<rparr>]"

text \<open>
  Modelled from the spec: \<open>correlate(scored_entries) -> (deduplicated_entries, clusters,
  correlations)\<close> of the Correlator (section 4.3).
\<close>

definition correlate ::
  "correlator_config \<Rightarrow> ScoredEntry list \<Rightarrow> ScoredEntry list \<times> Cluster list \<times> Correlation list" where
  "correlate cfg scored =
     (let deduped = deduplicate cfg scored;
          cors = discover cfg deduped;
          clusters = concat (map make_cluster (components (joined cfg cors) deduped))
      in (deduped, clusters, cors))"

text \<open>
  Modelled from the spec: what \<open>fetch_candidates\<close> of a source collaborator gives the
  Orchestrator (sections 4.5, 5, 6): raw records, an error, or nothing within the
  per-source timeout.
\<close>

datatype 'r fetch_outcome = Returned "'r list" | Errored | TimedOut

text \<open>
  Modelled from the spec: one candidate fetch sent to a source collaborator (sections
  4.5, 6): the source, the query text, the limit and the timeout that governs it, in
  seconds.
\<close>

record fetch_request =
  fr_source :: source_kind
  fr_query :: string
  fr_limit :: int
  fr_timeout :: real

text \<open>
  Modelled from the spec: the configuration threaded through the Orchestrator
  (sections 4.5, 9): the per-source timeout and the configurations of the stages.
\<close>

record orchestrator_config =
  source_timeout :: real
  scoring :: scorer_config
  correlation :: correlator_config

text \<open>
  Modelled from the spec: the defaults of the Orchestrator (section 4.5): a per-source
  timeout of 5 seconds, and the defaults of the Scorer and the Correlator.
\<close>

definition default_orchestrator_config :: "(source_kind \<Rightarrow> real) \<Rightarrow> orchestrator_config" where
  "default_orchestrator_config priority =
     \<lparr>source_timeout = 5, scoring = default_scorer_config priority,
      correlation = default_correlator_config\<rparr>"

text \<open>
  Modelled from the spec: what the Orchestrator calls and the specification leaves
  open (sections 4.1, 6): the source collaborators, the Entry Normalizer and the
  tokenizer of the query text.
\<close>

record 'r collaborators =
  fetch_candidates :: "fetch_request \<Rightarrow> 'r fetch_outcome"
  normalize_record :: "'r \<Rightarrow> source_kind \<Rightarrow> ContextEntry"
  tokenize :: "string \<Rightarrow> string list"

text \<open>Modelled from the spec: QueryResult (section 3).\<close>

record QueryResult =
  qr_query :: string
  qr_ranked_entries :: "ScoredEntry list"
  qr_clusters :: "Cluster list"
  qr_sources_used :: "source_kind list"
  qr_confidence_score :: real
  qr_execution_time :: real

text \<open>
  Modelled from the spec: the fan-out of the Orchestrator (sections 4.5, 5): one
  candidate fetch for each requested source, each under the per-source timeout.
\<close>

definition fan_out :: "orchestrator_config \<Rightarrow> string \<Rightarrow> source_kind list \<Rightarrow> int \<Rightarrow> fetch_request list" where
  "fan_out cfg query_text sources limit =
     map (\<lambda>src. \<lparr>fr_source = src, fr_query = query_text, fr_limit = limit,
                  fr_timeout = source_timeout cfg\<rparr>) sources"

text \<open>Modelled from the spec: whether a source answered its fetch (section 4.5).\<close>

fun responded :: "'r fetch_outcome \<Rightarrow> bool" where
  "responded (Returned _) = True"
| "responded Errored = False"
| "responded TimedOut = False"

text \<open>
  Modelled from the spec: the raw records of one fetch, each with its source; a source
  that failed or timed out gives none (section 6).
\<close>

fun candidates_of :: "source_kind \<Rightarrow> 'r fetch_outcome \<Rightarrow> ('r \<times> source_kind) list" where
  "candidates_of src (Returned raws) = map (\<lambda>raw. (raw, src)) raws"
| "candidates_of src Errored = []"
| "candidates_of src TimedOut = []"

text \<open>Modelled from the spec: the mean relevance; no entries give 0 (sections 4.5, 8).\<close>

definition mean_relevance :: "ScoredEntry list \<Rightarrow> real" where
  "mean_relevance es =
     (if es = [] then 0 else sum_list (map relevance_score es) / real (length es))"

text \<open>
  Modelled from the spec: the sources that answered, in the order requested (section
  4.5): a source that errored or timed out is not among them.
\<close>

definition answered_sources :: "(source_kind \<times> 'r fetch_outcome) list \<Rightarrow> source_kind list" where
  "answered_sources answers = map fst (filter (\<lambda>(src, answer). responded answer) answers)"

text \<open>
  Modelled from the spec: the candidates of a query (section 4.5): the records
  returned are normalised and scored against the tokenised query text; entries under
  the minimum score are left out (section 4.2).
\<close>

definition scored_candidates ::
  "orchestrator_config \<Rightarrow> 'r collaborators \<Rightarrow> int \<Rightarrow> string \<Rightarrow>
   (source_kind \<times> 'r fetch_outcome) list \<Rightarrow> ScoredEntry list" where
  "scored_candidates cfg col now query_text answers =
     (let raws = concat (map (\<lambda>(src, answer). candidates_of src answer) answers);
          entries = map (\<lambda>(raw, src). normalize_record col raw src) raws;
          scored_all = map (\<lambda>e. score_entry (scoring cfg) now e (tokenize col query_text)) entries
      in filter (\<lambda>e. min_score (scoring cfg) \<le> relevance_score e) scored_all)"

text \<open>
  Modelled from the spec: the confidence of a result (section 4.5): the mean relevance
  of the selected entries times the share of the requested sources that answered.
\<close>

definition confidence :: "ScoredEntry list \<Rightarrow> nat \<Rightarrow> nat \<Rightarrow> real" where
  "confidence chosen n_answered n_requested =
     (if n_requested = 0 then 0
      else mean_relevance chosen * (real n_answered / real n_requested))"

text \<open>
  Modelled from the spec: the assembly of the QueryResult once every fetch has settled
  (sections 4.5, 5): the candidates are correlated and selected, and the result takes
  the clusters, the selected entries, the sources that answered, the confidence and
  the duration.
\<close>

definition assemble ::
  "orchestrator_config \<Rightarrow> string \<Rightarrow> nat \<Rightarrow> int \<Rightarrow> real \<Rightarrow> source_kind list \<Rightarrow>
   ScoredEntry list \<Rightarrow> query_error + QueryResult" where
  "assemble cfg query_text n_requested limit elapsed answered kept =
     (case select (fst (snd (correlate (correlation cfg) kept))) limit of
        Inl err \<Rightarrow> Inl err
      | Inr chosen \<Rightarrow>
          Inr \<lparr>qr_query = query_text, qr_ranked_entries = chosen,
               qr_clusters = fst (snd (correlate (correlation cfg) kept)),
               qr_sources_used = answered,
               qr_confidence_score = confidence chosen (length answered) n_requested,
               qr_execution_time = elapsed\<rparr>)"

text \<open>
  Modelled from the spec: one run of the Orchestrator: the fetches it sent and what it
  returned (sections 4.5, 7).
\<close>

record query_run =
  run_fetches :: "fetch_request list"
  run_result :: "query_error + QueryResult"

text \<open>
  Modelled from the spec: \<open>run_query(query_text, sources, limit) -> QueryResult\<close> of the
  Query Orchestrator (sections 4.5, 7), at the time \<open>now\<close> and taking \<open>elapsed\<close> seconds.
  An empty query text or a limit that is not positive is rejected before any fetch; an
  unknown source cannot be written in \<open>source_kind\<close>. Otherwise every requested source
  is fetched, and the result is assembled from the answers.
\<close>

definition run_query ::
  "orchestrator_config \<Rightarrow> 'r collaborators \<Rightarrow> int \<Rightarrow> real \<Rightarrow> string \<Rightarrow> source_kind list \<Rightarrow> int \<Rightarrow> query_run" where
  "run_query cfg col now elapsed query_text sources limit =
     (if query_text = [] \<or> limit \<le> 0 then \<lparr>run_fetches = [], run_result = Inl InvalidQuery\<rparr>
      else
        let fetches = fan_out cfg query_text sources limit;
            answers = map (\<lambda>rq. (fr_source rq, fetch_candidates col rq)) fetches
        in \<lparr>run_fetches = fetches,
            run_result =
              assemble cfg query_text (length sources) limit elapsed (answered_sources answers)
                (scored_candidates cfg col now query_text answers)\<rparr>)"

text \<open>
  Sample entries, after the scenario of section 8 of the specification: a commit, a
  chat message posted five minutes later that quotes the commit hash, and an unrelated
  ticket.
\<close>

definition commit_entry :: ScoredEntry where
  "commit_entry =
     \<lparr>entry = \<lparr>ce_id = ''a1b2c3d'', ce_source = CodeRepo, ce_type = ''commit'',
               ce_title = Some ''Use redis for the session cache'',
               ce_content = ''Switch the session cache to redis'', ce_author = None,
               ce_timestamp = 1000, ce_url = None, ce_tags = [''redis'', ''cache'']\<rparr>,
      relevance_score = 6 / 10, matched_terms = [''redis'']\<rparr>"

definition chat_entry :: ScoredEntry where
  "chat_entry =
     \<lparr>entry = \<lparr>ce_id = ''msg-7'', ce_source = Chat, ce_type = ''message'', ce_title = None,
               ce_content = ''see a1b2c3d: redis beats postgres for caching'',
               ce_author = Some ''sam'', ce_timestamp = 1300, ce_url = None,
               ce_tags = [''redis'', ''postgres'', ''caching'']\<rparr>,
      relevance_score = 8 / 10, matched_terms = [''redis'', ''postgres'', ''caching'']\<rparr>"

definition ticket_entry :: ScoredEntry where
  "ticket_entry =
     \<lparr>entry = \<lparr>ce_id = ''PROJ-9'', ce_source = IssueTracker, ce_type = ''ticket'',
               ce_title = Some ''Invoice rounding'', ce_content = ''Totals are off by a cent'',
               ce_author = None, ce_timestamp = 900000, ce_url = None,
               ce_tags = [''billing'']\<rparr>,
      relevance_score = 3 / 10, matched_terms = []\<rparr>"

definition redis_cluster :: Cluster where
  "redis_cluster =
     \<lparr>members = [chat_entry, commit_entry], representative = chat_entry,
      merged_relevance = 8 / 10\<rparr>"

definition ticket_cluster :: Cluster where
  "ticket_cluster =
     \<lparr>members = [ticket_entry], representative = ticket_entry, merged_relevance = 3 / 10\<rparr>"


definition chat_is_down :: "string collaborators" where
  "chat_is_down =
     \<lparr>fetch_candidates =
        (\<lambda>rq. if fr_source rq = Chat then TimedOut else Returned [''a1b2c3d'']),
      normalize_record =
        (\<lambda>raw src. \<lparr>ce_id = raw, ce_source = src, ce_type = ''commit'', ce_title = None,
                      ce_content = raw, ce_author = None, ce_timestamp = 0, ce_url = None,
                      ce_tags = [raw]\<rparr>),
      tokenize = (\<lambda>t. [t])\<rparr>"

section \<open>Facts about the handlers\<close>

lemma blank_spaces: "blank (js_str ''   '')"
  by (simp add: blank_def trim_def js_str_def is_js_whitespace_def)

lemma nonblank_redis: "\<not> blank (js_str ''redis'')"
  by (simp add: blank_def trim_def js_str_def is_js_whitespace_def)

lemma handleQuery_blank:
  "blank (query s) \<Longrightarrow>
   handleQuery env s = \<lparr>after = s, requests = [], timers = [], rejected = None\<rparr>"
  by (simp add: handleQuery_def)

lemma handleQuery_nonblank:
  "\<not> blank (query s) \<Longrightarrow>
   handleQuery env s =
     \<lparr>after = on_fetched env (fetch env (query_request env s)) (handleQuery_begin s),
      requests = [query_request env s],
      timers = [(500, ClearIsQuerying)],
      rejected = None\<rparr>"
  by (simp add: handleQuery_def Let_def)

lemma handleQuery_sim_blank:
  "blank (sim_query t) \<Longrightarrow>
   handleQuery_sim t = \<lparr>sim_after = t, sim_requests = [], sim_timers = [], sim_rejected = None\<rparr>"
  by (simp add: handleQuery_sim_def)

lemma handleQuery_sim_requests: "sim_requests (handleQuery_sim t) = []"
  by (simp add: handleQuery_sim_def)

lemma on_catch_apiResponse: "apiResponse (on_catch e s) = apiResponse s"
  by (simp add: on_catch_def)

lemma on_catch_activeTools: "activeTools (on_catch e s) = []"
  by (simp add: on_catch_def)

lemma on_catch_error: "\<exists>m. m \<noteq> [] \<and> error (on_catch e s) = Some m"
  by (simp add: on_catch_def str_or_else_def js_str_def)

lemma begin_apiResponse: "apiResponse (handleQuery_begin s) = None"
  by (simp add: handleQuery_begin_def)


lemma on_fetched_failed:
  assumes "request_failed r"
  shows "\<exists>e. on_fetched env r (handleQuery_begin s) = on_catch e (handleQuery_begin s)"
proof (cases r)
  case (FetchThrows e)
  then show ?thesis by auto
next
  case (FetchResponds resp)
  with assms obtain status body t where "resp = ErrResponse status body t"
    by (cases resp) auto
  with FetchResponds show ?thesis by auto
qed

lemma on_fetched_ok_activeTools:
  "activeTools (on_fetched env (FetchResponds (OkResponse body)) (handleQuery_begin s)) =
     (case body of
        JsonObject data \<Rightarrow> (case sources_used data of Some used \<Rightarrow> used | None \<Rightarrow> [])
      | _ \<Rightarrow> [])"
  by (cases body) (simp_all add: on_catch_activeTools)

lemma on_fetched_data:
  "on_fetched env (FetchResponds (OkResponse (JsonObject data))) (handleQuery_begin s) =
     (handleQuery_begin s)\<lparr>apiResponse := Some data,
       activeTools := (case sources_used data of Some used \<Rightarrow> used | None \<Rightarrow> [])\<rparr>"
  by simp

text \<open>
  C10. When the trimmed query text is empty, \<open>handleQuery\<close> of either page returns at
  its first line: it sends no request, arms no timer, rejects with nothing and leaves
  every piece of state as it was; the submit button is disabled in such a state.
\<close>

theorem blank_query_is_noop:
  assumes "blank (query s)" and "blank (sim_query t)"
  shows "handleQuery env s = \<lparr>after = s, requests = [], timers = [], rejected = None\<rparr> \<and>
         submit_disabled s \<and>
         handleQuery_sim t =
           \<lparr>sim_after = t, sim_requests = [], sim_timers = [], sim_rejected = None\<rparr> \<and>
         sim_submit_disabled t"
  using assms
  by (simp add: handleQuery_blank handleQuery_sim_blank submit_disabled_def sim_submit_disabled_def)

theorem blank_query_is_noop_witness:
  "blank (query (fresh (js_str ''   ''))) \<and> blank (sim_query (sim_fresh (js_str ''   ''))) \<and>
   handleQuery (answering (FetchThrows (JsError []))) (fresh (js_str ''   '')) =
     \<lparr>after = fresh (js_str ''   ''), requests = [], timers = [], rejected = None\<rparr> \<and>
   submit_disabled (fresh (js_str ''   '')) \<and>
   handleQuery_sim (sim_fresh (js_str ''   '')) =
     \<lparr>sim_after = sim_fresh (js_str ''   ''), sim_requests = [], sim_timers = [],
      sim_rejected = None\<rparr> \<and>
   sim_submit_disabled (sim_fresh (js_str ''   ''))"
proof -
  have a: "blank (query (fresh (js_str ''   '')))"
    by (simp add: fresh_def blank_spaces)
  have b: "blank (sim_query (sim_fresh (js_str ''   '')))"
    by (simp add: sim_fresh_def blank_spaces)
  show ?thesis
    using a b blank_query_is_noop [OF a b, of "answering (FetchThrows (JsError []))"]
    by simp
qed

text \<open>
  C8. When the query is not blank and the backend request fails (\<open>fetch\<close> throws or the
  response is not ok), the handler ends with \<open>apiResponse\<close> null, \<open>error\<close> a non-empty
  message and \<open>activeTools\<close> empty, so that no tool indicator is active; the promise is
  not rejected and the only thing left pending is the 500 ms timer that clears
  \<open>isQuerying\<close>.
\<close>

theorem failed_request_clears_state:
  assumes "\<not> blank (query s)" and "request_failed (fetch env (query_request env s))"
  shows "apiResponse (after (handleQuery env s)) = None \<and>
         (\<exists>m. m \<noteq> [] \<and> error (after (handleQuery env s)) = Some m) \<and>
         activeTools (after (handleQuery env s)) = [] \<and>
         (\<forall>tool. \<not> isActive (after (handleQuery env s)) tool) \<and>
         rejected (handleQuery env s) = None \<and>
         timers (handleQuery env s) = [(500, ClearIsQuerying)]"
proof -
  from assms(2) obtain e where
    "on_fetched env (fetch env (query_request env s)) (handleQuery_begin s) =
       on_catch e (handleQuery_begin s)"
    using on_fetched_failed by blast
  with assms(1) have r: "handleQuery env s =
      \<lparr>after = on_catch e (handleQuery_begin s), requests = [query_request env s],
       timers = [(500, ClearIsQuerying)], rejected = None\<rparr>"
    by (simp add: handleQuery_nonblank)
  show ?thesis
    using on_catch_error [of e "handleQuery_begin s"]
    by (simp add: r on_catch_apiResponse on_catch_activeTools begin_apiResponse isActive_def)
qed

theorem failed_request_clears_state_witness:
  "\<not> blank (query (fresh (js_str ''redis''))) \<and>
   request_failed (fetch (answering (FetchResponds source_down))
     (query_request (answering (FetchResponds source_down)) (fresh (js_str ''redis'')))) \<and>
   apiResponse (after (handleQuery (answering (FetchResponds source_down)) (fresh (js_str ''redis'')))) = None \<and>
   activeTools (after (handleQuery (answering (FetchResponds source_down)) (fresh (js_str ''redis'')))) = []"
proof -
  have a: "\<not> blank (query (fresh (js_str ''redis'')))"
    by (simp add: fresh_def nonblank_redis)
  have b: "request_failed (fetch (answering (FetchResponds source_down))
     (query_request (answering (FetchResponds source_down)) (fresh (js_str ''redis''))))"
    by (simp add: answering_def source_down_def)
  show ?thesis
    using a b failed_request_clears_state [OF a b] by simp
qed

text \<open>
  C9. When the query is not blank and the backend answers with an ok response,
  \<open>activeTools\<close> ends as the \<open>sources_used\<close> array of that response, and as the empty
  array when the body has no such field (or is not an object at all); a tool indicator
  is active exactly for the sources the response reports.
\<close>

theorem ok_response_sets_activeTools:
  assumes "\<not> blank (query s)"
    and "fetch env (query_request env s) = FetchResponds (OkResponse body)"
  shows "activeTools (after (handleQuery env s)) =
           (case body of
              JsonObject data \<Rightarrow> (case sources_used data of Some used \<Rightarrow> used | None \<Rightarrow> [])
            | _ \<Rightarrow> []) \<and>
         (\<forall>tool. isActive (after (handleQuery env s)) tool \<longrightarrow>
            (\<exists>data used. body = JsonObject data \<and> sources_used data = Some used \<and>
               tool \<in> set used))"
proof -
  have r: "after (handleQuery env s) =
      on_fetched env (FetchResponds (OkResponse body)) (handleQuery_begin s)"
    using assms by (simp add: handleQuery_nonblank)
  have t: "activeTools (after (handleQuery env s)) =
           (case body of
              JsonObject data \<Rightarrow> (case sources_used data of Some used \<Rightarrow> used | None \<Rightarrow> [])
            | _ \<Rightarrow> [])"
    by (simp only: r on_fetched_ok_activeTools)
  show ?thesis
  proof (cases body)
    case (JsonObject data)
    then show ?thesis
      unfolding isActive_def t by (cases "sources_used data") auto
  qed (simp_all add: isActive_def t)
qed

theorem ok_response_sets_activeTools_witness:
  "\<not> blank (query (fresh (js_str ''redis''))) \<and>
   activeTools (after (handleQuery (answering (FetchResponds (OkResponse (JsonObject sample_response))))
     (fresh (js_str ''redis'')))) = [js_str ''github''] \<and>
   \<not> isActive (after (handleQuery (answering (FetchResponds (OkResponse (JsonObject sample_response))))
     (fresh (js_str ''redis'')))) (js_str ''slack'')"
proof -
  let ?env = "answering (FetchResponds (OkResponse (JsonObject sample_response)))"
  have a: "\<not> blank (query (fresh (js_str ''redis'')))"
    by (simp add: fresh_def nonblank_redis)
  have b: "fetch ?env (query_request ?env (fresh (js_str ''redis''))) =
      FetchResponds (OkResponse (JsonObject sample_response))"
    by (simp add: answering_def)
  have c: "sources_used sample_response = Some [js_str ''github'']"
    by (simp add: sample_response_def)
  have d: "js_str ''slack'' \<notin> set [js_str ''github'']"
    by (simp add: js_str_def)
  from ok_response_sets_activeTools [OF a b]
  have "activeTools (after (handleQuery ?env (fresh (js_str ''redis'')))) = [js_str ''github'']"
    and "isActive (after (handleQuery ?env (fresh (js_str ''redis'')))) (js_str ''slack'') \<longrightarrow>
            (\<exists>data used. JsonObject sample_response = JsonObject data \<and>
               sources_used data = Some used \<and> js_str ''slack'' \<in> set used)"
    by (simp_all add: c)
  with a c d show ?thesis by auto
qed

text \<open>
  C1, as stated, has a blank query rejected as a caller error. At the query of three
  spaces the handler reports nothing: \<open>error\<close> stays null and the promise resolves.
\<close>

theorem blank_query_raises_no_error:
  "blank (js_str ''   '') \<and>
   error (after (handleQuery (answering (FetchThrows (JsError (js_str ''Failed to fetch''))))
     (fresh (js_str ''   '')))) = None \<and>
   rejected (handleQuery (answering (FetchThrows (JsError (js_str ''Failed to fetch''))))
     (fresh (js_str ''   ''))) = None"
  by (simp add: blank_spaces handleQuery_blank fresh_def)

text \<open>
  C1, amended. For a blank query neither page's \<open>handleQuery\<close> sends a request, and
  the call is no error: the promise is not rejected and \<open>error\<close> keeps its value.
\<close>

theorem blank_query_sends_nothing:
  assumes "blank (query s)" and "blank (sim_query t)"
  shows "requests (handleQuery env s) = [] \<and>
         rejected (handleQuery env s) = None \<and>
         error (after (handleQuery env s)) = error s \<and>
         sim_requests (handleQuery_sim t) = [] \<and>
         sim_rejected (handleQuery_sim t) = None"
  using assms by (simp add: handleQuery_blank handleQuery_sim_blank)

theorem blank_query_sends_nothing_witness:
  "blank (query (fresh [0x3000, 0x0009])) \<and> blank (sim_query (sim_fresh [0x00A0])) \<and>
   requests (handleQuery (answering (FetchResponds (OkResponse (JsonObject sample_response))))
     (fresh [0x3000, 0x0009])) = [] \<and>
   sim_requests (handleQuery_sim (sim_fresh [0x00A0])) = []"
proof -
  have a: "blank (query (fresh [0x3000, 0x0009]))"
    by (simp add: fresh_def blank_def trim_def is_js_whitespace_def)
  have b: "blank (sim_query (sim_fresh [0x00A0]))"
    by (simp add: sim_fresh_def blank_def trim_def is_js_whitespace_def)
  show ?thesis
    using a b blank_query_sends_nothing [OF a b] by simp
qed



section \<open>Facts about the scorer\<close>

lemma clamp_bounds: "lo \<le> hi \<Longrightarrow> lo \<le> clamp x lo hi \<and> clamp x lo hi \<le> hi"
  by (simp add: clamp_def)

lemma lexical_overlap_bounds: "0 \<le> lexical_overlap e terms \<and> lexical_overlap e terms \<le> 1"
proof -
  have "length (filter (term_found e) (remdups terms)) \<le> length (remdups terms)"
    by (rule length_filter_le)
  then show ?thesis
    by (simp add: lexical_overlap_def divide_le_eq_1)
qed

lemma recency_bounds:
  assumes "0 < half_life cfg"
  shows "0 < recency cfg now e \<and> recency cfg now e \<le> 1"
proof (cases "now \<le> ce_timestamp e")
  case True
  then show ?thesis by (simp add: recency_def)
next
  case False
  then have "0 \<le> real_of_int (now - ce_timestamp e) / half_life cfg"
    using assms by simp
  then have "(1 / 2) powr (real_of_int (now - ce_timestamp e) / half_life cfg) \<le> 1"
    by (intro powr_le1) simp_all
  with False show ?thesis by (simp add: recency_def)
qed

text \<open>
  C5. With the default weights the score the Scorer gives an entry is
  \<open>clamp(0.5 * lexical + 0.2 * recency + 0.3 * source, 0, 1)\<close>, and under every
  configuration the score lies in the closed interval from 0 to 1.
\<close>

theorem score_is_clamped_weighted_sum:
  "relevance_score (score_entry (default_scorer_config priority) now e terms) =
     clamp (5 / 10 * lexical_overlap e terms +
            2 / 10 * recency (default_scorer_config priority) now e +
            3 / 10 * source_signal (default_scorer_config priority) e) 0 1 \<and>
   0 \<le> relevance_score (score_entry cfg now e terms) \<and>
   relevance_score (score_entry cfg now e terms) \<le> 1"
  by (simp add: score_entry_def default_scorer_config_def clamp_def)

section \<open>Facts about the selector\<close>

lemma ranks_before_total: "\<not> ranks_before a b \<Longrightarrow> ranks_before b a"
  by (auto simp: ranks_before_def)

lemma ranks_before_trans: "ranks_before a b \<Longrightarrow> ranks_before b c \<Longrightarrow> ranks_before a c"
  by (auto simp: ranks_before_def)

lemma set_insert_ranked: "set (insert_ranked c ds) = insert c (set ds)"
  by (induction ds) auto

lemma mset_insert_ranked: "mset (insert_ranked c ds) = add_mset c (mset ds)"
  by (induction ds) auto

lemma sorted_insert_ranked:
  "sorted_wrt ranks_before ds \<Longrightarrow> sorted_wrt ranks_before (insert_ranked c ds)"
proof (induction ds)
  case Nil
  then show ?case by simp
next
  case (Cons d ds)
  show ?case
  proof (cases "ranks_before c d")
    case True
    with Cons.prems show ?thesis
      by (auto intro: ranks_before_trans)
  next
    case False
    then have "ranks_before d c" by (rule ranks_before_total)
    with False Cons show ?thesis
      by (auto simp: set_insert_ranked)
  qed
qed

lemma mset_rank_clusters: "mset (rank_clusters cs) = mset cs"
  by (induction cs) (simp_all add: rank_clusters_def mset_insert_ranked)

lemma sorted_rank_clusters: "sorted_wrt ranks_before (rank_clusters cs)"
  by (induction cs) (simp_all add: rank_clusters_def sorted_insert_ranked)

section \<open>Facts about the correlator\<close>

lemma mset_concat_split:
  "mset (concat (filter P gs)) + mset (concat (filter (\<lambda>g. \<not> P g) gs)) = mset (concat gs)"
  by (induction gs) auto

lemma mset_add_to_groups:
  "mset (concat (add_to_groups link e gs)) = add_mset e (mset (concat gs))"
  using mset_concat_split [of "touches link e" gs]
  by (simp add: add_to_groups_def)

lemma mset_components: "mset (concat (components link es)) = mset es"
  by (induction es) (simp_all add: components_def mset_add_to_groups)

lemma members_make_cluster:
  "concat (map members (concat (map make_cluster gs))) = concat gs"
proof (induction gs)
  case Nil
  then show ?case by simp
next
  case (Cons g gs)
  then show ?case by (cases g) simp_all
qed

lemma mset_insert_survivor: "mset (insert_survivor e ks) = add_mset e (mset ks)"
  by (induction ks) auto

lemma mset_by_survival: "mset (by_survival es) = mset es"
  by (induction es) (simp_all add: by_survival_def mset_insert_survivor)

lemma mset_drop_duplicates: "mset (drop_duplicates cfg es) \<subseteq># mset es"
proof (induction cfg es rule: drop_duplicates.induct)
  case (1 cfg)
  then show ?case by simp
next
  case (2 cfg e es)
  have "mset (filter (\<lambda>x. \<not> duplicates cfg e x) es) \<subseteq># mset es"
    by simp
  with "2.IH" have "mset (drop_duplicates cfg (filter (\<lambda>x. \<not> duplicates cfg e x) es)) \<subseteq># mset es"
    by (rule subset_mset.order_trans)
  then show ?case by simp
qed

lemma mset_deduplicate: "mset (deduplicate cfg es) \<subseteq># mset es"
  using mset_drop_duplicates [of cfg "by_survival es"]
  by (simp add: deduplicate_def mset_by_survival)

lemma set_drop_duplicates: "set (drop_duplicates cfg es) \<subseteq> set es"
  using mset_drop_duplicates [of cfg es] set_mset_mono by fastforce

lemma filter_drop_duplicates:
  "(\<forall>x \<in> set es. P x) \<Longrightarrow> filter P (drop_duplicates cfg es) = drop_duplicates cfg es"
  using set_drop_duplicates [of cfg es] by (auto simp: filter_id_conv)

text \<open>No entry that is kept duplicates an entry kept before it.\<close>

lemma drop_duplicates_unique:
  "i < j \<Longrightarrow> j < length (drop_duplicates cfg es) \<Longrightarrow>
   \<not> duplicates cfg (drop_duplicates cfg es ! i) (drop_duplicates cfg es ! j)"
proof (induction cfg es arbitrary: i j rule: drop_duplicates.induct)
  case (1 cfg)
  then show ?case by simp
next
  case (2 cfg e es)
  let ?rest = "drop_duplicates cfg (filter (\<lambda>x. \<not> duplicates cfg e x) es)"
  from "2.prems" obtain j' where j: "j = Suc j'" by (cases j) auto
  show ?case
  proof (cases i)
    case 0
    have "?rest ! j' \<in> set ?rest"
      using "2.prems" j by simp
    then have "?rest ! j' \<in> set (filter (\<lambda>x. \<not> duplicates cfg e x) es)"
      using set_drop_duplicates by blast
    with 0 j show ?thesis by simp
  next
    case (Suc i')
    with "2.prems" j have "\<not> duplicates cfg (?rest ! i') (?rest ! j')"
      by (intro "2.IH") auto
    with Suc j show ?thesis by simp
  qed
qed

lemma drop_duplicates_again:
  "drop_duplicates cfg (drop_duplicates cfg es) = drop_duplicates cfg es"
proof (induction cfg es rule: drop_duplicates.induct)
  case (1 cfg)
  then show ?case by simp
next
  case (2 cfg e es)
  let ?rest = "drop_duplicates cfg (filter (\<lambda>x. \<not> duplicates cfg e x) es)"
  have "filter (\<lambda>x. \<not> duplicates cfg e x) ?rest = ?rest"
    by (rule filter_drop_duplicates) simp
  with "2.IH" show ?case by simp
qed

lemma survival_order_trans:
  "\<not> survives_over b a \<Longrightarrow> \<not> survives_over c b \<Longrightarrow> \<not> survives_over c a"
  by (auto simp: survives_over_def)

lemma survival_order_asym: "survives_over a b \<Longrightarrow> \<not> survives_over b a"
  by (auto simp: survives_over_def)

lemma set_insert_survivor: "set (insert_survivor e ks) = insert e (set ks)"
  by (induction ks) auto

lemma sorted_insert_survivor:
  "sorted_wrt (\<lambda>a b. \<not> survives_over b a) ks \<Longrightarrow>
   sorted_wrt (\<lambda>a b. \<not> survives_over b a) (insert_survivor e ks)"
proof (induction ks)
  case Nil
  then show ?case by simp
next
  case (Cons k ks)
  show ?case
  proof (cases "survives_over k e")
    case True
    then have "\<not> survives_over e k" by (rule survival_order_asym)
    with True Cons show ?thesis
      by (auto simp: set_insert_survivor)
  next
    case False
    have "\<forall>x \<in> set ks. \<not> survives_over x e"
    proof
      fix x
      assume "x \<in> set ks"
      with Cons.prems have "\<not> survives_over x k" by simp
      with False show "\<not> survives_over x e" by (rule survival_order_trans)
    qed
    with False Cons.prems show ?thesis by simp
  qed
qed

lemma sorted_by_survival: "sorted_wrt (\<lambda>a b. \<not> survives_over b a) (by_survival es)"
  by (induction es) (simp_all add: by_survival_def sorted_insert_survivor)

lemma by_survival_sorted:
  "sorted_wrt (\<lambda>a b. \<not> survives_over b a) es \<Longrightarrow> by_survival es = es"
proof (induction es)
  case Nil
  then show ?case by (simp add: by_survival_def)
next
  case (Cons e es)
  then have "by_survival es = es" by simp
  then have "by_survival (e # es) = insert_survivor e es"
    by (simp add: by_survival_def)
  also have "\<dots> = e # es"
    using Cons.prems by (cases es) auto
  finally show ?case .
qed

lemma sorted_drop_duplicates:
  "sorted_wrt R es \<Longrightarrow> sorted_wrt R (drop_duplicates cfg es)"
proof (induction cfg es rule: drop_duplicates.induct)
  case (1 cfg)
  then show ?case by simp
next
  case (2 cfg e es)
  let ?rest = "filter (\<lambda>x. \<not> duplicates cfg e x) es"
  from "2.prems" have "sorted_wrt R ?rest"
    by (simp add: sorted_wrt_filter)
  then have "sorted_wrt R (drop_duplicates cfg ?rest)"
    by (rule "2.IH")
  moreover have "\<forall>x \<in> set (drop_duplicates cfg ?rest). R e x"
    using "2.prems" set_drop_duplicates [of cfg ?rest] by auto
  ultimately show ?case by simp
qed

text \<open>Running the deduplication on its own output merges nothing further.\<close>

lemma deduplicate_idempotent: "deduplicate cfg (deduplicate cfg es) = deduplicate cfg es"
proof -
  have "sorted_wrt (\<lambda>a b. \<not> survives_over b a) (deduplicate cfg es)"
    unfolding deduplicate_def by (intro sorted_drop_duplicates sorted_by_survival)
  then have "by_survival (deduplicate cfg es) = deduplicate cfg es"
    by (rule by_survival_sorted)
  then show ?thesis
    by (simp add: deduplicate_def drop_duplicates_again)
qed

lemma distinct_map_submset:
  assumes "distinct (map f xs)" and "mset ys \<subseteq># mset xs"
  shows "distinct (map f ys)"
proof -
  from assms(2) obtain C where "mset xs = mset ys + C"
    by (auto simp: mset_subset_eq_exists_conv)
  moreover obtain zs where "mset zs = C"
    using ex_mset by blast
  ultimately have "mset (map f xs) = mset (map f (ys @ zs))"
    by simp
  then have "distinct (map f (ys @ zs))"
    using assms(1) mset_eq_imp_distinct_iff by blast
  then show ?thesis by simp
qed

lemma distinct_concat_disjoint:
  "distinct (concat xss) \<Longrightarrow> i < j \<Longrightarrow> j < length xss \<Longrightarrow> set (xss ! i) \<inter> set (xss ! j) = {}"
proof (induction xss arbitrary: i j)
  case Nil
  then show ?case by simp
next
  case (Cons xs xss)
  from Cons.prems obtain j' where j: "j = Suc j'" by (cases j) auto
  show ?case
  proof (cases i)
    case 0
    have "xss ! j' \<in> set xss" using Cons.prems j by simp
    with Cons.prems(1) 0 j show ?thesis by auto
  next
    case (Suc i')
    with Cons.prems j have "set (xss ! i') \<inter> set (xss ! j') = {}"
      by (intro Cons.IH) auto
    with Suc j show ?thesis by simp
  qed
qed

lemma correlate_members:
  assumes "correlate cfg scored = (deduped, clusters, cors)"
  shows "deduped = deduplicate cfg scored"
    and "mset (concat (map members clusters)) = mset deduped"
proof -
  from assms show d: "deduped = deduplicate cfg scored"
    by (simp add: correlate_def Let_def)
  from assms have
    "clusters = concat (map make_cluster (components (joined cfg cors) deduped))"
    by (auto simp: correlate_def Let_def)
  then show "mset (concat (map members clusters)) = mset deduped"
    by (simp add: members_make_cluster mset_components)
qed

lemma member_ids_concat:
  "concat (map member_ids clusters) = map (\<lambda>m. ce_id (entry m)) (concat (map members clusters))"
  by (induction clusters) (simp_all add: member_ids_def)

text \<open>
  C6. For a positive limit, \<open>select\<close> returns the representatives of the clusters in
  the order of the Ranker (representative relevance descending, then cluster size
  descending, then representative timestamp descending): the representatives of the
  first \<open>limit\<close> clusters of a rearrangement of the input that is sorted by that order,
  hence at most \<open>limit\<close> entries. A limit that is not positive is refused as a caller
  error. The default limit is 10, the \<open>context_limit\<close> the page sends.
\<close>

theorem select_ranks_and_truncates:
  "(0 < limit \<longrightarrow>
      (\<exists>ranked. mset ranked = mset clusters \<and> sorted_wrt ranks_before ranked \<and>
         select clusters limit = Inr (map representative (take (nat limit) ranked)) \<and>
         length (map representative (take (nat limit) ranked)) \<le> nat limit)) \<and>
   (limit \<le> 0 \<longrightarrow> select clusters limit = Inl InvalidQuery) \<and>
   default_limit = 10 \<and>
   context_limit (req_body (query_request env s)) = default_limit"
proof (intro conjI impI)
  assume "0 < limit"
  then have "select clusters limit =
      Inr (map representative (take (nat limit) (rank_clusters clusters)))"
    by (simp add: select_def)
  then show "\<exists>ranked. mset ranked = mset clusters \<and> sorted_wrt ranks_before ranked \<and>
         select clusters limit = Inr (map representative (take (nat limit) ranked)) \<and>
         length (map representative (take (nat limit) ranked)) \<le> nat limit"
    using mset_rank_clusters [of clusters] sorted_rank_clusters [of clusters]
    by (intro exI [of _ "rank_clusters clusters"]) simp
next
  assume "limit \<le> 0"
  then show "select clusters limit = Inl InvalidQuery"
    by (simp add: select_def)
next
  show "default_limit = 10"
    by (simp add: default_limit_def)
next
  show "context_limit (req_body (query_request env s)) = default_limit"
    by (simp add: default_limit_def query_request_def)
qed

theorem select_ranks_and_truncates_witness:
  "(0::int) < 1 \<and> (0::int) \<le> 0 \<and>
   select [ticket_cluster, redis_cluster] 1 = Inr [chat_entry] \<and>
   select [ticket_cluster, redis_cluster] 0 = Inl InvalidQuery \<and>
   (\<exists>ranked. mset ranked = mset [ticket_cluster, redis_cluster] \<and>
      sorted_wrt ranks_before ranked \<and>
      select [ticket_cluster, redis_cluster] 1 = Inr (map representative (take (nat 1) ranked)))"
proof -
  have a: "(0::int) < 1" and b: "(0::int) \<le> 0"
    by simp_all
  have c: "select [ticket_cluster, redis_cluster] 1 = Inr [chat_entry]"
    by code_simp
  from select_ranks_and_truncates [of 1 "[ticket_cluster, redis_cluster]"] a
  have d: "\<exists>ranked. mset ranked = mset [ticket_cluster, redis_cluster] \<and>
      sorted_wrt ranks_before ranked \<and>
      select [ticket_cluster, redis_cluster] 1 = Inr (map representative (take (nat 1) ranked))"
    by blast
  from select_ranks_and_truncates [of 0 "[ticket_cluster, redis_cluster]"] b
  have e: "select [ticket_cluster, redis_cluster] 0 = Inl InvalidQuery"
    by blast
  from a b c d e show ?thesis by blast
qed

text \<open>
  C7. Whatever the Correlator is given, provided the entry ids are unique, its clusters
  partition the deduplicated entries: the member ids of all clusters together are the
  ids of the deduplicated entries, each exactly once, so that the union of the
  member-id sets is the deduplicated set and no id belongs to two clusters.
\<close>

theorem clusters_partition_deduplicated:
  assumes "distinct (map (\<lambda>m. ce_id (entry m)) scored)"
    and "correlate cfg scored = (deduped, clusters, cors)"
  shows "(\<Union>c \<in> set clusters. set (member_ids c)) = set (map (\<lambda>m. ce_id (entry m)) deduped) \<and>
         mset (concat (map member_ids clusters)) = mset (map (\<lambda>m. ce_id (entry m)) deduped) \<and>
         distinct (concat (map member_ids clusters)) \<and>
         (\<forall>i j. i < j \<and> j < length clusters \<longrightarrow>
            set (member_ids (clusters ! i)) \<inter> set (member_ids (clusters ! j)) = {})"
proof -
  let ?ids = "map (\<lambda>m. ce_id (entry m))"
  have m: "mset (concat (map members clusters)) = mset deduped"
    using assms(2) by (rule correlate_members(2))
  have "mset (?ids (concat (map members clusters))) = mset (?ids deduped)"
    using m by (simp only: mset_map)
  then have p: "mset (concat (map member_ids clusters)) = mset (?ids deduped)"
    by (simp only: member_ids_concat)
  have "deduped = deduplicate cfg scored"
    using assms(2) by (rule correlate_members(1))
  then have "mset deduped \<subseteq># mset scored"
    by (simp add: mset_deduplicate)
  with assms(1) have "distinct (?ids deduped)"
    by (rule distinct_map_submset)
  with p have d: "distinct (concat (map member_ids clusters))"
    using mset_eq_imp_distinct_iff by blast
  have u: "(\<Union>c \<in> set clusters. set (member_ids c)) = set (?ids deduped)"
  proof -
    have "set (concat (map member_ids clusters)) = set (?ids deduped)"
      using p by (rule mset_eq_setD)
    then show ?thesis by simp
  qed
  have x: "\<forall>i j. i < j \<and> j < length clusters \<longrightarrow>
      set (member_ids (clusters ! i)) \<inter> set (member_ids (clusters ! j)) = {}"
  proof (intro allI impI)
    fix i j
    assume ij: "i < j \<and> j < length clusters"
    then have "set (map member_ids clusters ! i) \<inter> set (map member_ids clusters ! j) = {}"
      using d by (intro distinct_concat_disjoint) simp_all
    with ij show "set (member_ids (clusters ! i)) \<inter> set (member_ids (clusters ! j)) = {}"
      by simp
  qed
  from u p d x show ?thesis by blast
qed

theorem clusters_partition_deduplicated_witness:
  "distinct (map (\<lambda>m. ce_id (entry m)) [commit_entry, chat_entry, ticket_entry]) \<and>
   (\<exists>cors.
      correlate default_correlator_config [commit_entry, chat_entry, ticket_entry] =
        ([chat_entry, commit_entry, ticket_entry],
         [\<lparr>members = [chat_entry, commit_entry], representative = chat_entry,
            merged_relevance = 8 / 10\<rparr>,
          \<lparr>members = [ticket_entry], representative = ticket_entry,
            merged_relevance = 3 / 10\<rparr>],
         cors)) \<and>
   set (member_ids redis_cluster) \<union> set (member_ids ticket_cluster) =
     {''a1b2c3d'', ''msg-7'', ''PROJ-9''} \<and>
   set (member_ids redis_cluster) \<inter> set (member_ids ticket_cluster) = {}"
proof -
  let ?in = "[commit_entry, chat_entry, ticket_entry]"
  let ?out = "[chat_entry, commit_entry, ticket_entry]"
  let ?cs = "[redis_cluster, ticket_cluster]"
  have a: "distinct (map (\<lambda>m. ce_id (entry m)) ?in)"
    by code_simp
  have b: "fst (correlate default_correlator_config ?in) = ?out"
    by code_simp
  have c: "fst (snd (correlate default_correlator_config ?in)) = ?cs"
    by code_simp
  obtain cors where e: "correlate default_correlator_config ?in = (?out, ?cs, cors)"
    using b c by (cases "correlate default_correlator_config ?in") auto
  have ids: "map (\<lambda>m. ce_id (entry m)) ?out = [''msg-7'', ''a1b2c3d'', ''PROJ-9'']"
    by code_simp
  from clusters_partition_deduplicated [OF a e]
  have u: "(\<Union>c \<in> set ?cs. set (member_ids c)) = set (map (\<lambda>m. ce_id (entry m)) ?out)"
    and x: "\<forall>i j. i < j \<and> j < length ?cs \<longrightarrow>
      set (member_ids (?cs ! i)) \<inter> set (member_ids (?cs ! j)) = {}"
    by blast+
  from u have u': "set (member_ids redis_cluster) \<union> set (member_ids ticket_cluster) =
     {''a1b2c3d'', ''msg-7'', ''PROJ-9''}"
    by (simp only: ids) auto
  from x have "(0::nat) < 1 \<and> 1 < length ?cs \<longrightarrow>
      set (member_ids (?cs ! 0)) \<inter> set (member_ids (?cs ! 1)) = {}"
    by blast
  then have x': "set (member_ids redis_cluster) \<inter> set (member_ids ticket_cluster) = {}"
    by simp
  from e have "\<exists>cors. correlate default_correlator_config ?in =
     (?out,
      [\<lparr>members = [chat_entry, commit_entry], representative = chat_entry,
         merged_relevance = 8 / 10\<rparr>,
       \<lparr>members = [ticket_entry], representative = ticket_entry, merged_relevance = 3 / 10\<rparr>],
      cors)"
    by (auto simp: redis_cluster_def ticket_cluster_def)
  with a u' x' show ?thesis by blast
qed

section \<open>Facts about the orchestrator\<close>

lemma assemble_valid:
  "0 < limit \<Longrightarrow>
   \<exists>result. assemble cfg query_text n limit elapsed answered kept = Inr result \<and>
     qr_sources_used result = answered"
  by (simp add: assemble_def select_def)

lemma answered_fan_out:
  "answered_sources (map (\<lambda>rq. (fr_source rq, fetch_candidates col rq))
     (fan_out cfg query_text sources limit)) =
   filter (\<lambda>src. responded (fetch_candidates col
     \<lparr>fr_source = src, fr_query = query_text, fr_limit = limit,
      fr_timeout = source_timeout cfg\<rparr>)) sources"
  by (induction sources) (simp_all add: answered_sources_def fan_out_def)

lemma run_query_valid:
  assumes "query_text \<noteq> []" and "0 < limit"
  shows "run_fetches (run_query cfg col now elapsed query_text sources limit) =
           fan_out cfg query_text sources limit"
    and "\<exists>result. run_result (run_query cfg col now elapsed query_text sources limit) = Inr result \<and>
           qr_sources_used result =
             filter (\<lambda>src. responded (fetch_candidates col
               \<lparr>fr_source = src, fr_query = query_text, fr_limit = limit,
                fr_timeout = source_timeout cfg\<rparr>)) sources"
proof -
  let ?answers = "map (\<lambda>rq. (fr_source rq, fetch_candidates col rq))
      (fan_out cfg query_text sources limit)"
  have r: "run_query cfg col now elapsed query_text sources limit =
      \<lparr>run_fetches = fan_out cfg query_text sources limit,
       run_result = assemble cfg query_text (length sources) limit elapsed
         (answered_sources ?answers) (scored_candidates cfg col now query_text ?answers)\<rparr>"
    using assms by (simp add: run_query_def Let_def)
  show "run_fetches (run_query cfg col now elapsed query_text sources limit) =
      fan_out cfg query_text sources limit"
    by (simp add: r)
  from assemble_valid [OF assms(2)]
  obtain result where
    "assemble cfg query_text (length sources) limit elapsed (answered_sources ?answers)
       (scored_candidates cfg col now query_text ?answers) = Inr result"
    and "qr_sources_used result = answered_sources ?answers"
    by blast
  then show "\<exists>result. run_result (run_query cfg col now elapsed query_text sources limit) = Inr result \<and>
      qr_sources_used result =
        filter (\<lambda>src. responded (fetch_candidates col
          \<lparr>fr_source = src, fr_query = query_text, fr_limit = limit,
           fr_timeout = source_timeout cfg\<rparr>)) sources"
    by (simp add: r answered_fan_out)
qed

text \<open>
  C3. For a valid query (the text is not empty, the limit is positive) with requested
  sources, \<open>run_query\<close> sends one candidate fetch to each requested source, in the order
  requested, each with the query text, the limit and the per-source timeout of the
  configuration, which is 5 seconds by default; the result is assembled from these
  fetches: it is a result and not an error, and its \<open>sources_used\<close> are the requested
  sources whose fetch answered.
\<close>

theorem run_query_fans_out:
  assumes "sources \<noteq> []" and "query_text \<noteq> []" and "0 < limit"
  shows "map fr_source (run_fetches (run_query cfg col now elapsed query_text sources limit)) = sources \<and>
         length (run_fetches (run_query cfg col now elapsed query_text sources limit)) = length sources \<and>
         (\<forall>rq \<in> set (run_fetches (run_query cfg col now elapsed query_text sources limit)).
            fr_query rq = query_text \<and> fr_limit rq = limit \<and> fr_timeout rq = source_timeout cfg) \<and>
         source_timeout (default_orchestrator_config priority) = 5 \<and>
         (\<exists>result. run_result (run_query cfg col now elapsed query_text sources limit) = Inr result \<and>
            qr_sources_used result =
              filter (\<lambda>src. responded (fetch_candidates col
                \<lparr>fr_source = src, fr_query = query_text, fr_limit = limit,
                 fr_timeout = source_timeout cfg\<rparr>)) sources)"
proof -
  have f: "run_fetches (run_query cfg col now elapsed query_text sources limit) =
      fan_out cfg query_text sources limit"
    using assms(2,3) by (rule run_query_valid(1))
  have "map fr_source (fan_out cfg query_text sources limit) = sources"
    by (simp add: fan_out_def comp_def)
  moreover have "\<forall>rq \<in> set (fan_out cfg query_text sources limit).
      fr_query rq = query_text \<and> fr_limit rq = limit \<and> fr_timeout rq = source_timeout cfg"
    by (auto simp: fan_out_def)
  moreover have "length (fan_out cfg query_text sources limit) = length sources"
    by (simp add: fan_out_def)
  moreover have "source_timeout (default_orchestrator_config priority) = 5"
    by (simp add: default_orchestrator_config_def)
  ultimately show ?thesis
    using run_query_valid(2) [OF assms(2,3), of cfg col now elapsed sources]
    by (simp only: f)
qed

theorem run_query_fans_out_witness:
  "[CodeRepo, Chat, IssueTracker] \<noteq> [] \<and> ''redis'' \<noteq> [] \<and> (0::int) < 10 \<and>
   map fr_source (run_fetches (run_query (default_orchestrator_config (\<lambda>_. 1)) chat_is_down 0 1
     ''redis'' [CodeRepo, Chat, IssueTracker] 10)) = [CodeRepo, Chat, IssueTracker] \<and>
   map fr_timeout (run_fetches (run_query (default_orchestrator_config (\<lambda>_. 1)) chat_is_down 0 1
     ''redis'' [CodeRepo, Chat, IssueTracker] 10)) = [5, 5, 5] \<and>
   (\<exists>result. run_result (run_query (default_orchestrator_config (\<lambda>_. 1)) chat_is_down 0 1
     ''redis'' [CodeRepo, Chat, IssueTracker] 10) = Inr result \<and>
      qr_sources_used result = [CodeRepo, IssueTracker])"
proof -
  let ?cfg = "default_orchestrator_config (\<lambda>_. 1)"
  let ?sent = "run_fetches (run_query ?cfg chat_is_down 0 1 ''redis''
      [CodeRepo, Chat, IssueTracker] 10)"
  have a: "[CodeRepo, Chat, IssueTracker] \<noteq> []" and b: "''redis'' \<noteq> []" and c: "(0::int) < 10"
    by simp_all
  have t: "source_timeout ?cfg = 5"
    by (simp add: default_orchestrator_config_def)
  have d: "filter (\<lambda>src. responded (fetch_candidates chat_is_down
        \<lparr>fr_source = src, fr_query = ''redis'', fr_limit = 10, fr_timeout = source_timeout ?cfg\<rparr>))
      [CodeRepo, Chat, IssueTracker] = [CodeRepo, IssueTracker]"
    by (simp add: chat_is_down_def)
  from run_query_fans_out [OF a b c, of ?cfg chat_is_down 0 1 "\<lambda>_. 1"]
  have f: "map fr_source ?sent = [CodeRepo, Chat, IssueTracker]"
    and n: "length ?sent = length [CodeRepo, Chat, IssueTracker]"
    and g: "\<forall>rq \<in> set ?sent.
          fr_query rq = ''redis'' \<and> fr_limit rq = 10 \<and> fr_timeout rq = source_timeout ?cfg"
    and h: "\<exists>result. run_result (run_query ?cfg chat_is_down 0 1 ''redis''
        [CodeRepo, Chat, IssueTracker] 10) = Inr result \<and>
          qr_sources_used result =
            filter (\<lambda>src. responded (fetch_candidates chat_is_down
              \<lparr>fr_source = src, fr_query = ''redis'', fr_limit = 10,
               fr_timeout = source_timeout ?cfg\<rparr>)) [CodeRepo, Chat, IssueTracker]"
    by blast+
  from g have "\<forall>rq \<in> set ?sent. fr_timeout rq = 5"
    by (simp only: t) blast
  then have "map fr_timeout ?sent = map (\<lambda>_. 5) ?sent"
    by (intro map_cong) auto
  also have "\<dots> = replicate (length ?sent) 5"
    by (simp add: map_replicate_const)
  also have "\<dots> = [5, 5, 5]"
    by (simp only: n) (simp add: numeral_3_eq_3)
  finally have g': "map fr_timeout ?sent = [5, 5, 5]" .
  from h have h': "\<exists>result. run_result (run_query ?cfg chat_is_down 0 1 ''redis''
        [CodeRepo, Chat, IssueTracker] 10) = Inr result \<and>
          qr_sources_used result = [CodeRepo, IssueTracker]"
    by (simp only: d)
  from a b c f g' h' show ?thesis by blast
qed

end
